theory Spec2Isabelle
  imports Complex_Main
begin

section \<open>Flanking and distance measurement of \<open>TokenPF2e\<close> (src/module/canvas/token.ts)\<close>

text \<open>
  The theory embeds the three tactical methods of the class \<open>TokenPF2e\<close>:
  \<open>canFlank\<close>, \<open>isFlanking\<close> and \<open>distanceTo\<close>, together with the local helpers
  they declare. Everything the methods read from the host engine (the canvas, the
  grid, the geometry helpers of \<open>foundry.utils\<close>, the actor of a token) is a field
  of a record, so that a theorem holds for whatever the host supplies.

  Numbers: a JavaScript number is modelled as an exact real; the one special value
  the code itself produces, \<open>NaN\<close>, is kept as a value of its own wherever a
  distance or a reach is compared. Rounding of floating-point arithmetic is not
  modelled.
\<close>

subsection \<open>Numbers with the not-a-number value\<close>

datatype jsnum = NaN | Num real

text \<open>JavaScript's \<open>a >= b\<close>: false as soon as one operand is \<open>NaN\<close>.\<close>

fun js_ge :: "jsnum \<Rightarrow> jsnum \<Rightarrow> bool" where
  "js_ge (Num a) (Num b) = (b \<le> a)"
| "js_ge _ _ = False"

subsection \<open>Points and rectangles\<close>

text \<open>A \<open>Point\<close> is \<open>{x, y}\<close>.\<close>

record point =
  pt_x :: real
  pt_y :: real

text \<open>
  \<open>PIXI.Rectangle\<close> is built from \<open>(x, y, width, height)\<close>; its edges are read
  through the accessors \<open>left\<close>, \<open>right\<close>, \<open>top\<close> and \<open>bottom\<close>
  (here \<open>rect_left\<close>, \<open>rect_right\<close>, \<open>rect_top\<close>, \<open>rect_bottom\<close>).
\<close>

record rectangle =
  rect_x :: real
  rect_y :: real
  rect_width :: real
  rect_height :: real

definition rect_left :: "rectangle \<Rightarrow> real" where
  "rect_left r = rect_x r"

definition rect_right :: "rectangle \<Rightarrow> real" where
  "rect_right r = rect_x r + rect_width r"

definition rect_top :: "rectangle \<Rightarrow> real" where
  "rect_top r = rect_y r"

definition rect_bottom :: "rectangle \<Rightarrow> real" where
  "rect_bottom r = rect_y r + rect_height r"

subsection \<open>Actors, tokens and the host\<close>

text \<open>
  What the methods read from \<open>token.actor\<close>: the \<open>type\<close> string, whether the
  actor is an instance of \<open>CreaturePF2e\<close>, \<open>hasPlayerOwner\<close> (which the code
  defaults with \<open>?? false\<close>, so it may be absent), \<open>canAttack\<close>, and the result of
  \<open>getReach({ to: "attack" })\<close>.
\<close>

record actor =
  actor_type :: string
  instanceofCreaturePF2e :: bool
  hasPlayerOwner :: "bool option"
  canAttack :: bool
  getReach_attack :: jsnum

text \<open>
  A token: its actor (possibly \<open>null\<close>), the points \<open>center\<close> and \<open>position\<close>, the
  rectangle \<open>bounds\<close>, and the numbers \<open>x\<close>, \<open>y\<close>, \<open>w\<close>, \<open>h\<close>.
\<close>

record token =
  tok_actor :: "actor option"
  center :: point
  position :: point
  bounds :: rectangle
  tok_x :: real
  tok_y :: real
  tok_w :: real
  tok_h :: real

text \<open>
  Tokens are objects compared by identity (\<open>this === flankee\<close>, \<open>t !== this\<close>): a
  token is named by a reference, and the host's store gives the object behind it.
\<close>

type_synonym tokref = nat

datatype grid_type = GRIDLESS | SQUARE | HEXODDR | HEXEVENR | HEXODDQ | HEXEVENQ

text \<open>\<open>canvas.dimensions\<close>, of which only \<open>size\<close> is read.\<close>

record dimensions =
  dim_size :: real

text \<open>
  The host: \<open>canvas.dimensions\<close> (absent while the scene is not ready),
  \<open>canvas.grid.type\<close>, \<open>canvas.grid.measureDistance\<close>,
  \<open>canvas.tokens.placeables\<close>, the store of token objects, and the functions
  that are called but defined elsewhere:
  \<open>MeasuredTemplatePF2e.measureDistanceRect\<close> (with its \<open>reach\<close> option, a number
  or \<open>null\<close>), \<open>foundry.utils.lineCircleIntersection\<close> (of whose result only the
  array \<open>intersections\<close> is read) and \<open>foundry.utils.lineSegmentIntersects\<close>.
\<close>

record host =
  canvas_dimensions :: "dimensions option"
  canvas_grid_type :: grid_type
  canvas_grid_measureDistance :: "point \<Rightarrow> point \<Rightarrow> jsnum"
  placeables :: "tokref list"
  tokens :: "tokref \<Rightarrow> token"
  measureDistanceRect :: "rectangle \<Rightarrow> rectangle \<Rightarrow> jsnum option \<Rightarrow> jsnum"
  lineCircleIntersection :: "point \<Rightarrow> point \<Rightarrow> point \<Rightarrow> real \<Rightarrow> point list"
  lineSegmentIntersects :: "point \<Rightarrow> point \<Rightarrow> point \<Rightarrow> point \<Rightarrow> bool"

subsection \<open>Failure and the array methods\<close>

text \<open>
  Reading a property of \<open>null\<close> throws a \<open>TypeError\<close>; the non-null assertions
  \<open>t.actor!\<close> do not check anything at run time.
\<close>

datatype error = TypeError

text \<open>
  \<open>Array.prototype.every\<close> and \<open>Array.prototype.some\<close>, left to right, stopping at
  the first element that decides and at the first callback that throws.
\<close>

fun array_every :: "('a \<Rightarrow> error + bool) \<Rightarrow> 'a list \<Rightarrow> error + bool" where
  "array_every f [] = Inr True"
| "array_every f (t # ts) =
     (case f t of
        Inl e \<Rightarrow> Inl e
      | Inr b \<Rightarrow> if b then array_every f ts else Inr False)"

fun array_some :: "('a \<Rightarrow> error + bool) \<Rightarrow> 'a list \<Rightarrow> error + bool" where
  "array_some f [] = Inr False"
| "array_some f (t # ts) =
     (case f t of
        Inl e \<Rightarrow> Inl e
      | Inr b \<Rightarrow> if b then Inr True else array_some f ts)"

subsection \<open>\<open>distanceTo\<close>\<close>

text \<open>The local function \<open>tokenRect\<close> of \<open>distanceTo\<close>.\<close>

definition tokenRect :: "real \<Rightarrow> token \<Rightarrow> rectangle" where
  "tokenRect gridSize t =
     \<lparr> rect_x = tok_x t + gridSize / 2,
       rect_y = tok_y t + gridSize / 2,
       rect_width = tok_w t - gridSize,
       rect_height = tok_h t - gridSize \<rparr>"

definition distanceTo :: "host \<Rightarrow> tokref \<Rightarrow> tokref \<Rightarrow> jsnum option \<Rightarrow> jsnum" where
  "distanceTo h this target reach =
     (case canvas_dimensions h of
        None \<Rightarrow> NaN
      | Some d \<Rightarrow>
          if canvas_grid_type h \<noteq> SQUARE
          then canvas_grid_measureDistance h
                 (position (tokens h this)) (position (tokens h target))
          else
            (let gridSize = dim_size d
             in measureDistanceRect h
                  (tokenRect gridSize (tokens h this))
                  (tokenRect gridSize (tokens h target)) reach))"

subsection \<open>\<open>canFlank\<close>\<close>

text \<open>
  \<open>hasPlayerOwner ?? false\<close> on an actor, and the callback
  \<open>(t) => t.actor!.hasPlayerOwner ?? false\<close>, which throws on a token without actor.
\<close>

definition ownerFlag :: "actor \<Rightarrow> bool" where
  "ownerFlag a = (case hasPlayerOwner a of None \<Rightarrow> False | Some b \<Rightarrow> b)"

definition playerOwned :: "host \<Rightarrow> tokref \<Rightarrow> error + bool" where
  "playerOwned h t =
     (case tok_actor (tokens h t) of
        None \<Rightarrow> Inl TypeError
      | Some a \<Rightarrow> Inr (ownerFlag a))"

text \<open>
  \<open>areAlliedTokens\<close>: \<open>every\<close> over the two tokens, and when that is false the
  negation of \<open>some\<close> over them.
\<close>

definition areAlliedTokens :: "host \<Rightarrow> tokref \<Rightarrow> tokref \<Rightarrow> error + bool" where
  "areAlliedTokens h this flankee =
     (case array_every (playerOwned h) [this, flankee] of
        Inl e \<Rightarrow> Inl e
      | Inr all_owned \<Rightarrow>
          if all_owned then Inr True
          else (case array_some (playerOwned h) [this, flankee] of
                  Inl e \<Rightarrow> Inl e
                | Inr some_owned \<Rightarrow> Inr (\<not> some_owned)))"

definition canFlank :: "host \<Rightarrow> tokref \<Rightarrow> tokref \<Rightarrow> error + bool" where
  "canFlank h this flankee =
     (if this = flankee then Inr False
      else if \<not> (case tok_actor (tokens h this) of
                    None \<Rightarrow> False
                  | Some a \<Rightarrow> actor_type a \<in> set [''character'', ''npc''])
      then Inr False
      else if \<not> (case tok_actor (tokens h flankee) of
                    None \<Rightarrow> False
                  | Some a \<Rightarrow> instanceofCreaturePF2e a)
      then Inr False
      else
        (case areAlliedTokens h this flankee of
           Inl e \<Rightarrow> Inl e
         | Inr allied \<Rightarrow>
             if allied then Inr False
             else
               (case tok_actor (tokens h this) of
                  None \<Rightarrow> Inl TypeError
                | Some a \<Rightarrow>
                    (let reach = getReach_attack a
                     in Inr (canAttack a \<and>
                             js_ge reach (distanceTo h this flankee (Some reach)))))))"

subsection \<open>\<open>isFlanking\<close>\<close>

definition areOnOppositeCorners :: "host \<Rightarrow> token \<Rightarrow> token \<Rightarrow> token \<Rightarrow> bool" where
  "areOnOppositeCorners h flankerA flankerB flankee =
     (length (lineCircleIntersection h (center flankerA) (center flankerB) (center flankee) 1) > 0)"

definition leftSide :: "rectangle \<Rightarrow> point \<times> point" where
  "leftSide b = (\<lparr>pt_x = rect_left b, pt_y = rect_top b\<rparr>, \<lparr>pt_x = rect_left b, pt_y = rect_bottom b\<rparr>)"

definition rightSide :: "rectangle \<Rightarrow> point \<times> point" where
  "rightSide b = (\<lparr>pt_x = rect_right b, pt_y = rect_top b\<rparr>, \<lparr>pt_x = rect_right b, pt_y = rect_bottom b\<rparr>)"

definition topSide :: "rectangle \<Rightarrow> point \<times> point" where
  "topSide b = (\<lparr>pt_x = rect_left b, pt_y = rect_top b\<rparr>, \<lparr>pt_x = rect_right b, pt_y = rect_top b\<rparr>)"

definition bottomSide :: "rectangle \<Rightarrow> point \<times> point" where
  "bottomSide b = (\<lparr>pt_x = rect_left b, pt_y = rect_bottom b\<rparr>, \<lparr>pt_x = rect_right b, pt_y = rect_bottom b\<rparr>)"

definition areOnOppositeSides :: "host \<Rightarrow> token \<Rightarrow> token \<Rightarrow> token \<Rightarrow> bool" where
  "areOnOppositeSides h flankerA flankerB flankee =
     (let centerA = center flankerA; centerB = center flankerB; b = bounds flankee
      in (lineSegmentIntersects h centerA centerB (fst (leftSide b)) (snd (leftSide b)) \<and>
          lineSegmentIntersects h centerA centerB (fst (rightSide b)) (snd (rightSide b))) \<or>
         (lineSegmentIntersects h centerA centerB (fst (topSide b)) (snd (topSide b)) \<and>
          lineSegmentIntersects h centerA centerB (fst (bottomSide b)) (snd (bottomSide b))))"

definition isAFlankingArrangement :: "host \<Rightarrow> token \<Rightarrow> token \<Rightarrow> token \<Rightarrow> bool" where
  "isAFlankingArrangement h flankerA flankerB flankee =
     (areOnOppositeCorners h flankerA flankerB flankee \<or>
      areOnOppositeSides h flankerA flankerB flankee)"

text \<open>
  The callback of the final \<open>some\<close>:
  \<open>(t) => t !== this && t.canFlank(flankee) && isAFlankingArrangement(this, t, flankee)\<close>.
\<close>

definition flankingBuddy :: "host \<Rightarrow> tokref \<Rightarrow> tokref \<Rightarrow> tokref \<Rightarrow> error + bool" where
  "flankingBuddy h this flankee t =
     (if t = this then Inr False
      else
        (case canFlank h t flankee of
           Inl e \<Rightarrow> Inl e
         | Inr c \<Rightarrow>
             if \<not> c then Inr False
             else Inr (isAFlankingArrangement h (tokens h this) (tokens h t) (tokens h flankee))))"

definition isFlanking :: "host \<Rightarrow> tokref \<Rightarrow> tokref \<Rightarrow> error + bool" where
  "isFlanking h this flankee =
     (case canFlank h this flankee of
        Inl e \<Rightarrow> Inl e
      | Inr c \<Rightarrow>
          if \<not> c then Inr False
          else array_some (flankingBuddy h this flankee) (placeables h))"

subsection \<open>Notions used to state the properties\<close>

text \<open>
  The player-allegiance flag of a token: \<open>hasPlayerOwner\<close> of its actor, false when
  the flag or the actor is absent.
\<close>

definition allegiance :: "host \<Rightarrow> tokref \<Rightarrow> bool" where
  "allegiance h t = (case tok_actor (tokens h t) of None \<Rightarrow> False | Some a \<Rightarrow> ownerFlag a)"

text \<open>The points of a rectangle, edges included.\<close>

definition rect_points :: "rectangle \<Rightarrow> point set" where
  "rect_points r =
     {p. rect_left r \<le> pt_x p \<and> pt_x p \<le> rect_right r \<and>
         rect_top r \<le> pt_y p \<and> pt_y p \<le> rect_bottom r}"

text \<open>A rectangle of non-negative width and height.\<close>

definition wellFormed :: "rectangle \<Rightarrow> bool" where
  "wellFormed r = (0 \<le> rect_width r \<and> 0 \<le> rect_height r)"

text \<open>The length of the vector \<open>(dx, dy)\<close>, and the Euclidean distance of two points.\<close>

definition hypot :: "real \<Rightarrow> real \<Rightarrow> real" where
  "hypot dx dy = sqrt (dx\<^sup>2 + dy\<^sup>2)"

definition pdist :: "point \<Rightarrow> point \<Rightarrow> real" where
  "pdist p q = hypot (pt_x p - pt_x q) (pt_y p - pt_y q)"

text \<open>
  The footprint \<open>[x, x + w] \<times> [y, y + h]\<close> of a token, shrunk by half a grid cell
  on each of its four sides.
\<close>

definition insetFootprint :: "real \<Rightarrow> token \<Rightarrow> point set" where
  "insetFootprint g t =
     {p. tok_x t + g / 2 \<le> pt_x p \<and> pt_x p \<le> tok_x t + tok_w t - g / 2 \<and>
         tok_y t + g / 2 \<le> pt_y p \<and> pt_y p \<le> tok_y t + tok_h t - g / 2}"

subsection \<open>The rectangle distance\<close>

text \<open>
  Modelled from the spec: the test "rectangles overlap or touch" of
  \<open>MeasuredTemplatePF2e.measureDistanceRect\<close>, a method of another file of the
  repository (\<open>src/module/canvas/measured-template.ts\<close>) of which \<open>token.ts\<close> has only
  the call.
\<close>

definition rectsOverlapOrTouch :: "rectangle \<Rightarrow> rectangle \<Rightarrow> bool" where
  "rectsOverlapOrTouch r0 r1 =
     (rect_left r0 \<le> rect_right r1 \<and> rect_left r1 \<le> rect_right r0 \<and>
      rect_top r0 \<le> rect_bottom r1 \<and> rect_top r1 \<le> rect_bottom r0)"

text \<open>
  Modelled from the spec: the distance along one axis between the nearest edges of
  \<open>MeasuredTemplatePF2e.measureDistanceRect\<close>'s two rectangles, zero where their
  extents on that axis meet.
\<close>

definition gap :: "real \<Rightarrow> real \<Rightarrow> real \<Rightarrow> real \<Rightarrow> real" where
  "gap lo0 hi0 lo1 hi1 = max (max (lo0 - hi1) (lo1 - hi0)) 0"

text \<open>
  Modelled from the spec: "the Euclidean distance between the nearest corner/edge
  pair" of \<open>MeasuredTemplatePF2e.measureDistanceRect\<close>'s two rectangles.
\<close>

definition nearestDistance :: "rectangle \<Rightarrow> rectangle \<Rightarrow> real" where
  "nearestDistance r0 r1 =
     hypot (gap (rect_left r0) (rect_right r0) (rect_left r1) (rect_right r1))
           (gap (rect_top r0) (rect_bottom r0) (rect_top r1) (rect_bottom r1))"

text \<open>
  Modelled from the spec: \<open>MeasuredTemplatePF2e.measureDistanceRect\<close>, which
  \<open>distanceTo\<close> calls on a square grid and which is defined in another file of the
  repository. Section 4.1 of the specification: "zero if rectangles overlap or touch;
  otherwise, the Euclidean distance between the nearest corner/edge pair, converted to
  grid-distance units via the context's cell size", the conversion being "an external
  collaborator call": it is the parameter \<open>toGridUnits\<close>, given the cell size and the
  distance. The specification gives the option \<open>reach\<close> no effect on the result.
\<close>

definition measureDistanceRect_spec ::
  "(real \<Rightarrow> real \<Rightarrow> real) \<Rightarrow> real \<Rightarrow> rectangle \<Rightarrow> rectangle \<Rightarrow> jsnum option \<Rightarrow> jsnum" where
  "measureDistanceRect_spec toGridUnits gridSize r0 r1 reach =
     (if rectsOverlapOrTouch r0 r1 then Num 0
      else Num (toGridUnits gridSize (nearestDistance r0 r1)))"

subsection \<open>The intersection helpers\<close>






subsection \<open>An example scene\<close>

text \<open>
  A concrete host on which the model is evaluated. Its geometry helpers are exact
  stand-ins for those of the engine: the segment test compares orientations, and the
  circle test reports the foot of the perpendicular from the centre when that foot
  lies on the segment and within the radius. A pixel distance becomes a grid distance
  at five units per cell.
\<close>

definition orient2d :: "point \<Rightarrow> point \<Rightarrow> point \<Rightarrow> real" where
  "orient2d a b c =
     (pt_y a - pt_y c) * (pt_x b - pt_x c) - (pt_x a - pt_x c) * (pt_y b - pt_y c)"

definition demo_lineSegmentIntersects :: "point \<Rightarrow> point \<Rightarrow> point \<Rightarrow> point \<Rightarrow> bool" where
  "demo_lineSegmentIntersects a b c d =
     (let xa = orient2d a b c; xb = orient2d a b d
      in if xa = 0 \<and> xb = 0 then False
         else xa * xb \<le> 0 \<and> orient2d c d a * orient2d c d b \<le> 0)"

definition demo_lineCircleIntersection :: "point \<Rightarrow> point \<Rightarrow> point \<Rightarrow> real \<Rightarrow> point list" where
  "demo_lineCircleIntersection a b c r =
     (let len2 = (pt_x b - pt_x a)\<^sup>2 + (pt_y b - pt_y a)\<^sup>2;
          along = (pt_x c - pt_x a) * (pt_x b - pt_x a) + (pt_y c - pt_y a) * (pt_y b - pt_y a)
      in if 0 < len2 \<and> 0 \<le> along \<and> along \<le> len2 \<and> (orient2d a b c)\<^sup>2 \<le> r\<^sup>2 * len2
         then [\<lparr>pt_x = pt_x a + along / len2 * (pt_x b - pt_x a),
                pt_y = pt_y a + along / len2 * (pt_y b - pt_y a)\<rparr>]
         else [])"

definition demo_toGridUnits :: "real \<Rightarrow> real \<Rightarrow> real" where
  "demo_toGridUnits gridSize d = d / gridSize * 5"

definition demo_measureDistance :: "point \<Rightarrow> point \<Rightarrow> jsnum" where
  "demo_measureDistance p q = Num (demo_toGridUnits 100 (pdist p q))"

text \<open>
  A square token of side \<open>s\<close> at \<open>(x, y)\<close>: \<open>position\<close> is its top-left corner,
  \<open>center\<close> the middle of its square and \<open>bounds\<close> the square itself, as the engine
  derives them.
\<close>

definition demo_token :: "actor option \<Rightarrow> real \<Rightarrow> real \<Rightarrow> real \<Rightarrow> token" where
  "demo_token a x y s =
     \<lparr> tok_actor = a,
       center = \<lparr>pt_x = x + s / 2, pt_y = y + s / 2\<rparr>,
       position = \<lparr>pt_x = x, pt_y = y\<rparr>,
       bounds = \<lparr>rect_x = x, rect_y = y, rect_width = s, rect_height = s\<rparr>,
       tok_x = x, tok_y = y, tok_w = s, tok_h = s \<rparr>"

definition demo_pc :: actor where
  "demo_pc = \<lparr> actor_type = ''character'', instanceofCreaturePF2e = True,
               hasPlayerOwner = Some True, canAttack = True, getReach_attack = Num 5 \<rparr>"

definition demo_npc :: actor where
  "demo_npc = \<lparr> actor_type = ''npc'', instanceofCreaturePF2e = True,
                hasPlayerOwner = None, canAttack = True, getReach_attack = Num 5 \<rparr>"

text \<open>
  Cells of 100 pixels. Token 10 (a player character) stands left of token 20 (a
  non-player character) and token 30 (a player character) right of it, all three
  one cell wide; tokens 40 and 50 are two cells wide and overlap; every other
  reference is a token without actor.
\<close>

definition demo_tokens :: "tokref \<Rightarrow> token" where
  "demo_tokens t =
     (if t = 10 then demo_token (Some demo_pc) 0 0 100
      else if t = 20 then demo_token (Some demo_npc) 100 0 100
      else if t = 30 then demo_token (Some demo_pc) 200 0 100
      else if t = 40 then demo_token (Some demo_npc) 0 100 200
      else if t = 50 then demo_token (Some demo_pc) 50 150 200
      else demo_token None 300 0 100)"

definition demo_scene :: host where
  "demo_scene =
     \<lparr> canvas_dimensions = Some \<lparr>dim_size = 100\<rparr>,
       canvas_grid_type = SQUARE,
       canvas_grid_measureDistance = demo_measureDistance,
       placeables = [10, 20, 30, 40, 50, 60],
       tokens = demo_tokens,
       measureDistanceRect = measureDistanceRect_spec demo_toGridUnits 100,
       lineCircleIntersection = demo_lineCircleIntersection,
       lineSegmentIntersects = demo_lineSegmentIntersects \<rparr>"

definition demo_gridless :: host where
  "demo_gridless = demo_scene\<lparr>canvas_grid_type := GRIDLESS\<rparr>"

definition demo_not_ready :: host where
  "demo_not_ready = demo_scene\<lparr>canvas_dimensions := None\<rparr>"

definition demo_alone :: host where
  "demo_alone = demo_scene\<lparr>placeables := [10]\<rparr>"




section \<open>Properties\<close>

subsection \<open>Evaluating \<open>canFlank\<close> and \<open>isFlanking\<close>\<close>

lemmas rect_defs = tokenRect_def rect_left_def rect_right_def rect_top_def rect_bottom_def

lemmas demo_defs = demo_scene_def demo_tokens_def demo_token_def demo_pc_def demo_npc_def
  demo_toGridUnits_def demo_measureDistance_def

lemma playerOwned_Some:
  "tok_actor (tokens h t) = Some a \<Longrightarrow> playerOwned h t = Inr (ownerFlag a)"
  by (simp add: playerOwned_def)

lemma playerOwned_None:
  "tok_actor (tokens h t) = None \<Longrightarrow> playerOwned h t = Inl TypeError"
  by (simp add: playerOwned_def)

lemma areAlliedTokens_Some:
  assumes "tok_actor (tokens h this) = Some a" and "tok_actor (tokens h flankee) = Some b"
  shows "areAlliedTokens h this flankee = Inr (ownerFlag a = ownerFlag b)"
  using assms by (auto simp: areAlliedTokens_def playerOwned_Some)

text \<open>Without the guards of \<open>canFlank\<close> the allegiance test would throw.\<close>

lemma areAlliedTokens_None:
  assumes "tok_actor (tokens h this) = None \<or> tok_actor (tokens h flankee) = None"
  shows "areAlliedTokens h this flankee = Inl TypeError"
  using assms
  by (cases "tok_actor (tokens h this)")
     (auto simp: areAlliedTokens_def playerOwned_Some playerOwned_None)

text \<open>\<open>canFlank\<close> always returns, and returns true exactly when every test passes.\<close>

lemma canFlank_eq:
  "canFlank h this flankee =
     Inr (this \<noteq> flankee \<and>
          (\<exists>a b. tok_actor (tokens h this) = Some a \<and> tok_actor (tokens h flankee) = Some b \<and>
             actor_type a \<in> {''character'', ''npc''} \<and> instanceofCreaturePF2e b \<and>
             ownerFlag a \<noteq> ownerFlag b \<and> canAttack a \<and>
             js_ge (getReach_attack a) (distanceTo h this flankee (Some (getReach_attack a)))))"
proof (cases "tok_actor (tokens h this)")
  case None
  then show ?thesis by (simp add: canFlank_def)
next
  case (Some a)
  note A = this
  show ?thesis
  proof (cases "tok_actor (tokens h flankee)")
    case None
    with A show ?thesis by (simp add: canFlank_def)
  next
    case (Some b)
    with A show ?thesis
      by (simp add: canFlank_def areAlliedTokens_Some Let_def)
  qed
qed

lemma array_some_Inr:
  assumes "\<And>t. t \<in> set ts \<Longrightarrow> f t = Inr (p t)"
  shows "array_some f ts = Inr (\<exists>t \<in> set ts. p t)"
  using assms by (induction ts) auto

lemma flankingBuddy_eq:
  "flankingBuddy h this flankee t =
     Inr (t \<noteq> this \<and> canFlank h t flankee = Inr True \<and>
          isAFlankingArrangement h (tokens h this) (tokens h t) (tokens h flankee))"
proof -
  obtain c where c: "canFlank h t flankee = Inr c"
    using canFlank_eq [of h t flankee] by blast
  show ?thesis by (simp add: flankingBuddy_def c)
qed

lemma isFlanking_eq:
  "isFlanking h this flankee =
     Inr (canFlank h this flankee = Inr True \<and>
          (\<exists>t \<in> set (placeables h). t \<noteq> this \<and> canFlank h t flankee = Inr True \<and>
             isAFlankingArrangement h (tokens h this) (tokens h t) (tokens h flankee)))"
proof -
  obtain c where c: "canFlank h this flankee = Inr c"
    using canFlank_eq [of h this flankee] by blast
  have s: "array_some (flankingBuddy h this flankee) (placeables h) =
     Inr (\<exists>t \<in> set (placeables h). t \<noteq> this \<and> canFlank h t flankee = Inr True \<and>
             isAFlankingArrangement h (tokens h this) (tokens h t) (tokens h flankee))"
    by (rule array_some_Inr) (rule flankingBuddy_eq)
  show ?thesis by (simp add: isFlanking_def c s)
qed

subsection \<open>The example scene, evaluated\<close>

lemma hypot_axis: "hypot dx 0 = \<bar>dx\<bar>"
  by (simp add: hypot_def)

lemma demo_distance_10_20: "distanceTo demo_scene 10 20 r = Num 5"
  by (simp add: distanceTo_def demo_defs rect_defs measureDistanceRect_spec_def
        rectsOverlapOrTouch_def nearestDistance_def gap_def hypot_axis)

lemma demo_distance_30_20: "distanceTo demo_scene 30 20 r = Num 5"
  by (simp add: distanceTo_def demo_defs rect_defs measureDistanceRect_spec_def
        rectsOverlapOrTouch_def nearestDistance_def gap_def hypot_axis)

lemma demo_canFlank_10_20: "canFlank demo_scene 10 20 = Inr True"
  unfolding canFlank_eq demo_distance_10_20 by (simp add: demo_defs ownerFlag_def)

lemma demo_canFlank_30_20: "canFlank demo_scene 30 20 = Inr True"
  unfolding canFlank_eq demo_distance_30_20 by (simp add: demo_defs ownerFlag_def)

lemma demo_opposite_sides:
  "areOnOppositeSides demo_scene (tokens demo_scene 10) (tokens demo_scene 30) (tokens demo_scene 20)"
  by (simp add: areOnOppositeSides_def demo_defs rect_defs leftSide_def rightSide_def
        topSide_def bottomSide_def demo_lineSegmentIntersects_def orient2d_def Let_def)

subsection \<open>Flanking\<close>

text \<open>
  C1. For every combatant \<open>A\<close>, flankee \<open>F\<close> and list of placed combatants, \<open>isFlanking\<close>
  returns true if and only if \<open>canFlank(A, F)\<close> holds and some placed \<open>B\<close> other than \<open>A\<close>
  has \<open>canFlank(B, F)\<close> and stands in a flanking arrangement with \<open>A\<close>: the segment between
  the centers of \<open>A\<close> and \<open>B\<close> has at least one intersection with the circle of radius 1
  around the center of \<open>F\<close>, or it crosses both the left and the right edge of the bounds
  of \<open>F\<close>, or both the top and the bottom edge, each edge running from corner to corner.
  It returns false when the placed combatants are none or only \<open>A\<close>.
\<close>

theorem isFlanking_iff:
  "isFlanking h A F =
     Inr (canFlank h A F = Inr True \<and>
          (\<exists>B \<in> set (placeables h). B \<noteq> A \<and> canFlank h B F = Inr True \<and>
             (let cA = center (tokens h A); cB = center (tokens h B);
                  cF = center (tokens h F); b = bounds (tokens h F)
              in 0 < length (lineCircleIntersection h cA cB cF 1) \<or>
                 (lineSegmentIntersects h cA cB
                    \<lparr>pt_x = rect_left b, pt_y = rect_top b\<rparr>
                    \<lparr>pt_x = rect_left b, pt_y = rect_bottom b\<rparr> \<and>
                  lineSegmentIntersects h cA cB
                    \<lparr>pt_x = rect_right b, pt_y = rect_top b\<rparr>
                    \<lparr>pt_x = rect_right b, pt_y = rect_bottom b\<rparr>) \<or>
                 (lineSegmentIntersects h cA cB
                    \<lparr>pt_x = rect_left b, pt_y = rect_top b\<rparr>
                    \<lparr>pt_x = rect_right b, pt_y = rect_top b\<rparr> \<and>
                  lineSegmentIntersects h cA cB
                    \<lparr>pt_x = rect_left b, pt_y = rect_bottom b\<rparr>
                    \<lparr>pt_x = rect_right b, pt_y = rect_bottom b\<rparr>))))
   \<and> (set (placeables h) \<subseteq> {A} \<longrightarrow> isFlanking h A F = Inr False)"
proof
  show "isFlanking h A F =
     Inr (canFlank h A F = Inr True \<and>
          (\<exists>B \<in> set (placeables h). B \<noteq> A \<and> canFlank h B F = Inr True \<and>
             (let cA = center (tokens h A); cB = center (tokens h B);
                  cF = center (tokens h F); b = bounds (tokens h F)
              in 0 < length (lineCircleIntersection h cA cB cF 1) \<or>
                 (lineSegmentIntersects h cA cB
                    \<lparr>pt_x = rect_left b, pt_y = rect_top b\<rparr>
                    \<lparr>pt_x = rect_left b, pt_y = rect_bottom b\<rparr> \<and>
                  lineSegmentIntersects h cA cB
                    \<lparr>pt_x = rect_right b, pt_y = rect_top b\<rparr>
                    \<lparr>pt_x = rect_right b, pt_y = rect_bottom b\<rparr>) \<or>
                 (lineSegmentIntersects h cA cB
                    \<lparr>pt_x = rect_left b, pt_y = rect_top b\<rparr>
                    \<lparr>pt_x = rect_right b, pt_y = rect_top b\<rparr> \<and>
                  lineSegmentIntersects h cA cB
                    \<lparr>pt_x = rect_left b, pt_y = rect_bottom b\<rparr>
                    \<lparr>pt_x = rect_right b, pt_y = rect_bottom b\<rparr>))))"
    unfolding isFlanking_eq
    by (simp add: isAFlankingArrangement_def areOnOppositeCorners_def areOnOppositeSides_def
          leftSide_def rightSide_def topSide_def bottomSide_def Let_def)
  show "set (placeables h) \<subseteq> {A} \<longrightarrow> isFlanking h A F = Inr False"
    unfolding isFlanking_eq by auto
qed

theorem isFlanking_iff_witness:
  "isFlanking demo_scene 10 20 = Inr True \<and>
   set (placeables demo_alone) \<subseteq> {10} \<and> isFlanking demo_alone 10 20 = Inr False"
proof -
  have b: "30 \<in> set (placeables demo_scene)"
    by (simp add: demo_scene_def)
  have s: "lineSegmentIntersects demo_scene
             (center (tokens demo_scene 10)) (center (tokens demo_scene 30))
             \<lparr>pt_x = rect_left (bounds (tokens demo_scene 20)),
              pt_y = rect_top (bounds (tokens demo_scene 20))\<rparr>
             \<lparr>pt_x = rect_left (bounds (tokens demo_scene 20)),
              pt_y = rect_bottom (bounds (tokens demo_scene 20))\<rparr> \<and>
           lineSegmentIntersects demo_scene
             (center (tokens demo_scene 10)) (center (tokens demo_scene 30))
             \<lparr>pt_x = rect_right (bounds (tokens demo_scene 20)),
              pt_y = rect_top (bounds (tokens demo_scene 20))\<rparr>
             \<lparr>pt_x = rect_right (bounds (tokens demo_scene 20)),
              pt_y = rect_bottom (bounds (tokens demo_scene 20))\<rparr>"
    using demo_opposite_sides
    by (simp add: demo_defs rect_defs demo_lineSegmentIntersects_def orient2d_def Let_def)
  have t: "isFlanking demo_scene 10 20 = Inr True"
    unfolding isFlanking_iff [of demo_scene 10 20, THEN conjunct1]
    using demo_canFlank_10_20 demo_canFlank_30_20 b s
    by (auto simp: Let_def intro!: bexI [of _ 30])
  have a: "set (placeables demo_alone) \<subseteq> {10}"
    by (simp add: demo_alone_def)
  have f: "isFlanking demo_alone 10 20 = Inr False"
    using isFlanking_iff [of demo_alone 10 20] a by blast
  from t a f show ?thesis by blast
qed

text \<open>
  C3. When the grid context is unavailable the measured distance is \<open>NaN\<close>, and every
  call of \<open>canFlank\<close> in that state returns false, whatever the arrangement: the
  comparison of the reach with \<open>NaN\<close> fails.
\<close>

theorem no_grid_context_no_flank:
  assumes "canvas_dimensions h = None"
  shows "distanceTo h A B reach = NaN \<and> canFlank h A B = Inr False"
proof -
  have d: "\<And>r. distanceTo h A B r = NaN"
    using assms by (simp add: distanceTo_def)
  have "\<And>x. \<not> js_ge x NaN"
    by (case_tac x) simp_all
  then show ?thesis
    unfolding canFlank_eq by (simp add: d)
qed

theorem no_grid_context_no_flank_witness:
  "canvas_dimensions demo_not_ready = None \<and>
   distanceTo demo_not_ready 10 20 (Some (Num 5)) = NaN \<and>
   canFlank demo_not_ready 10 20 = Inr False \<and> canFlank demo_scene 10 20 = Inr True"
proof -
  have n: "canvas_dimensions demo_not_ready = None"
    by (simp add: demo_not_ready_def)
  show ?thesis
    using no_grid_context_no_flank [OF n, of 10 20 "Some (Num 5)"] n demo_canFlank_10_20
    by simp
qed

text \<open>
  C4. Two combatants whose player-allegiance flags are identical (both true, or both
  false or absent) cannot flank each other: \<open>canFlank\<close> returns false, whatever the
  reach, the category or the arrangement.
\<close>

theorem allies_cannot_flank:
  assumes "allegiance h A = allegiance h B"
  shows "canFlank h A B = Inr False"
  using assms unfolding canFlank_eq by (auto simp: allegiance_def)

theorem allies_cannot_flank_witness:
  "allegiance demo_scene 10 = allegiance demo_scene 30 \<and> canFlank demo_scene 10 30 = Inr False"
proof -
  have a: "allegiance demo_scene 10 = allegiance demo_scene 30"
    by (simp add: allegiance_def demo_defs)
  show ?thesis
    using allies_cannot_flank [OF a] a by simp
qed

text \<open>
  C7. No combatant can flank itself: \<open>canFlank(A, A)\<close> is false; hence, in the scan of
  \<open>isFlanking\<close> over the placed combatants, the flankee itself never counts as the
  flanking buddy.
\<close>

theorem no_self_flank:
  "canFlank h A A = Inr False \<and> flankingBuddy h A F F = Inr False"
  unfolding flankingBuddy_eq canFlank_eq by simp

text \<open>
  C9. Two combatants that can both flank the same flankee carry the same
  player-allegiance flag (an absent flag counting as false).
\<close>

theorem flankers_share_allegiance:
  assumes "canFlank h A F = Inr True" and "canFlank h B F = Inr True"
  shows "allegiance h A = allegiance h B"
  using assms unfolding canFlank_eq by (auto simp: allegiance_def)

theorem flankers_share_allegiance_witness:
  "canFlank demo_scene 10 20 = Inr True \<and> canFlank demo_scene 30 20 = Inr True \<and>
   allegiance demo_scene 10 = allegiance demo_scene 30 \<and> allegiance demo_scene 10"
proof -
  have "allegiance demo_scene 10"
    by (simp add: allegiance_def demo_defs ownerFlag_def)
  then show ?thesis
    using flankers_share_allegiance [OF demo_canFlank_10_20 demo_canFlank_30_20]
      demo_canFlank_10_20 demo_canFlank_30_20 by simp
qed

text \<open>
  C10. \<open>canFlank\<close> returns false, without failing, when the flanker has no actor or the
  flankee's actor is missing or is not a creature; it never throws; and whenever it
  goes on to the allegiance test and the reach, both actors are present, so that the
  accesses through \<open>actor!\<close> find an actor.
\<close>

theorem canFlank_never_throws:
  "(tok_actor (tokens h A) = None \<or>
    (case tok_actor (tokens h F) of None \<Rightarrow> True | Some b \<Rightarrow> \<not> instanceofCreaturePF2e b)
      \<longrightarrow> canFlank h A F = Inr False)
   \<and> (\<exists>r. canFlank h A F = Inr r)
   \<and> (A \<noteq> F \<and>
       (case tok_actor (tokens h A) of None \<Rightarrow> False
        | Some a \<Rightarrow> actor_type a \<in> set [''character'', ''npc'']) \<and>
       (case tok_actor (tokens h F) of None \<Rightarrow> False | Some b \<Rightarrow> instanceofCreaturePF2e b)
      \<longrightarrow> tok_actor (tokens h A) \<noteq> None \<and> tok_actor (tokens h F) \<noteq> None \<and>
          (\<exists>r. areAlliedTokens h A F = Inr r))"
proof (intro conjI)
  show "tok_actor (tokens h A) = None \<or>
    (case tok_actor (tokens h F) of None \<Rightarrow> True | Some b \<Rightarrow> \<not> instanceofCreaturePF2e b)
      \<longrightarrow> canFlank h A F = Inr False"
    unfolding canFlank_eq by (auto split: option.splits)
  show "\<exists>r. canFlank h A F = Inr r"
    unfolding canFlank_eq by blast
  show "A \<noteq> F \<and>
       (case tok_actor (tokens h A) of None \<Rightarrow> False
        | Some a \<Rightarrow> actor_type a \<in> set [''character'', ''npc'']) \<and>
       (case tok_actor (tokens h F) of None \<Rightarrow> False | Some b \<Rightarrow> instanceofCreaturePF2e b)
      \<longrightarrow> tok_actor (tokens h A) \<noteq> None \<and> tok_actor (tokens h F) \<noteq> None \<and>
          (\<exists>r. areAlliedTokens h A F = Inr r)"
    by (auto split: option.splits simp: areAlliedTokens_Some)
qed

theorem canFlank_never_throws_witness:
  "tok_actor (tokens demo_scene 60) = None \<and>
   canFlank demo_scene 60 20 = Inr False \<and> canFlank demo_scene 10 60 = Inr False \<and>
   tok_actor (tokens demo_scene 10) \<noteq> None \<and> tok_actor (tokens demo_scene 20) \<noteq> None \<and>
   (\<exists>r. areAlliedTokens demo_scene 10 20 = Inr r)"
proof -
  have n: "tok_actor (tokens demo_scene 60) = None"
    by (simp add: demo_defs)
  have g: "(10::nat) \<noteq> 20 \<and>
       (case tok_actor (tokens demo_scene 10) of None \<Rightarrow> False
        | Some a \<Rightarrow> actor_type a \<in> set [''character'', ''npc'']) \<and>
       (case tok_actor (tokens demo_scene 20) of None \<Rightarrow> False
        | Some b \<Rightarrow> instanceofCreaturePF2e b)"
    by (simp add: demo_defs)
  have 1: "canFlank demo_scene 60 20 = Inr False"
    using canFlank_never_throws [of demo_scene 60 20] n by blast
  have 2: "canFlank demo_scene 10 60 = Inr False"
    using canFlank_never_throws [of demo_scene 10 60] n by simp
  have 3: "tok_actor (tokens demo_scene 10) \<noteq> None \<and> tok_actor (tokens demo_scene 20) \<noteq> None \<and>
      (\<exists>r. areAlliedTokens demo_scene 10 20 = Inr r)"
    using canFlank_never_throws [of demo_scene 10 20] g by blast
  from n 1 2 3 show ?thesis by blast
qed

subsection \<open>Geometry of the rectangle distance\<close>



lemma hypot_mono:
  assumes "\<bar>a\<bar> \<le> \<bar>c\<bar>" and "\<bar>b\<bar> \<le> \<bar>d\<bar>"
  shows "hypot a b \<le> hypot c d"
proof -
  have "a\<^sup>2 \<le> c\<^sup>2" "b\<^sup>2 \<le> d\<^sup>2"
    using assms by (simp_all add: abs_le_square_iff)
  then show ?thesis
    by (simp add: hypot_def add_mono)
qed

lemma gap_nonneg: "0 \<le> gap lo0 hi0 lo1 hi1"
  by (simp add: gap_def)


lemma gap_zero_iff: "gap lo0 hi0 lo1 hi1 = 0 \<longleftrightarrow> lo0 \<le> hi1 \<and> lo1 \<le> hi0"
  by (auto simp: gap_def max_def)

text \<open>No two points of the two intervals are closer than the gap.\<close>

lemma gap_lower:
  assumes "lo0 \<le> u" "u \<le> hi0" "lo1 \<le> v" "v \<le> hi1"
  shows "gap lo0 hi0 lo1 hi1 \<le> \<bar>u - v\<bar>"
  using assms by (auto simp: gap_def max_def)

text \<open>Two points of the two intervals are exactly the gap apart.\<close>

lemma gap_attained:
  assumes "lo0 \<le> hi0" "lo1 \<le> hi1"
  shows "\<exists>u v. lo0 \<le> u \<and> u \<le> hi0 \<and> lo1 \<le> v \<and> v \<le> hi1 \<and> \<bar>u - v\<bar> = gap lo0 hi0 lo1 hi1"
proof -
  consider "hi1 < lo0" | "hi0 < lo1" | "lo0 \<le> hi1" "lo1 \<le> hi0" by linarith
  then show ?thesis
  proof cases
    case 1
    with assms have "\<bar>lo0 - hi1\<bar> = gap lo0 hi0 lo1 hi1" by (auto simp: gap_def max_def)
    with assms show ?thesis by (intro exI [of _ lo0] exI [of _ hi1]) simp
  next
    case 2
    with assms have "\<bar>hi0 - lo1\<bar> = gap lo0 hi0 lo1 hi1" by (auto simp: gap_def max_def)
    with assms show ?thesis by (intro exI [of _ hi0] exI [of _ lo1]) simp
  next
    case 3
    then have g: "gap lo0 hi0 lo1 hi1 = 0" by (simp add: gap_zero_iff)
    from 3 assms show ?thesis
      by (intro exI [of _ "max lo0 lo1"] exI [of _ "max lo0 lo1"]) (simp add: g)
  qed
qed

lemma wellFormed_edges:
  "wellFormed r \<Longrightarrow> rect_left r \<le> rect_right r \<and> rect_top r \<le> rect_bottom r"
  by (simp add: wellFormed_def rect_defs)




lemma nearestDistance_lower:
  assumes "p \<in> rect_points r0" and "q \<in> rect_points r1"
  shows "nearestDistance r0 r1 \<le> pdist p q"
proof -
  have x: "gap (rect_left r0) (rect_right r0) (rect_left r1) (rect_right r1) \<le> \<bar>pt_x p - pt_x q\<bar>"
    using assms by (intro gap_lower) (simp_all add: rect_points_def)
  have y: "gap (rect_top r0) (rect_bottom r0) (rect_top r1) (rect_bottom r1) \<le> \<bar>pt_y p - pt_y q\<bar>"
    using assms by (intro gap_lower) (simp_all add: rect_points_def)
  show ?thesis
    unfolding nearestDistance_def pdist_def
    using x y gap_nonneg by (intro hypot_mono) simp_all
qed

lemma nearestDistance_attained:
  assumes "wellFormed r0" and "wellFormed r1"
  shows "\<exists>p \<in> rect_points r0. \<exists>q \<in> rect_points r1. pdist p q = nearestDistance r0 r1"
proof -
  obtain u v where x: "rect_left r0 \<le> u" "u \<le> rect_right r0" "rect_left r1 \<le> v"
      "v \<le> rect_right r1"
      "\<bar>u - v\<bar> = gap (rect_left r0) (rect_right r0) (rect_left r1) (rect_right r1)"
    using gap_attained [of "rect_left r0" "rect_right r0" "rect_left r1" "rect_right r1"]
      wellFormed_edges [OF assms(1)] wellFormed_edges [OF assms(2)] by blast
  obtain s t where y: "rect_top r0 \<le> s" "s \<le> rect_bottom r0" "rect_top r1 \<le> t"
      "t \<le> rect_bottom r1"
      "\<bar>s - t\<bar> = gap (rect_top r0) (rect_bottom r0) (rect_top r1) (rect_bottom r1)"
    using gap_attained [of "rect_top r0" "rect_bottom r0" "rect_top r1" "rect_bottom r1"]
      wellFormed_edges [OF assms(1)] wellFormed_edges [OF assms(2)] by blast
  let ?p = "\<lparr>pt_x = u, pt_y = s\<rparr>" and ?q = "\<lparr>pt_x = v, pt_y = t\<rparr>"
  have "?p \<in> rect_points r0" "?q \<in> rect_points r1"
    using x y by (simp_all add: rect_points_def)
  moreover have "pdist ?p ?q = nearestDistance r0 r1"
    using x(5) y(5)
    by (simp add: pdist_def nearestDistance_def hypot_def
          flip: power2_abs [of "u - v"] power2_abs [of "s - t"])
  ultimately show ?thesis by blast
qed

lemma overlap_iff_common_point:
  assumes "wellFormed r0" and "wellFormed r1"
  shows "rectsOverlapOrTouch r0 r1 \<longleftrightarrow> rect_points r0 \<inter> rect_points r1 \<noteq> {}"
proof
  assume o: "rectsOverlapOrTouch r0 r1"
  let ?p = "\<lparr>pt_x = max (rect_left r0) (rect_left r1), pt_y = max (rect_top r0) (rect_top r1)\<rparr>"
  have "?p \<in> rect_points r0 \<inter> rect_points r1"
    using o wellFormed_edges [OF assms(1)] wellFormed_edges [OF assms(2)]
    by (simp add: rect_points_def rectsOverlapOrTouch_def)
  then show "rect_points r0 \<inter> rect_points r1 \<noteq> {}" by blast
next
  assume "rect_points r0 \<inter> rect_points r1 \<noteq> {}"
  then obtain p where "p \<in> rect_points r0" "p \<in> rect_points r1" by blast
  then show "rectsOverlapOrTouch r0 r1"
    by (simp add: rect_points_def rectsOverlapOrTouch_def)
qed

text \<open>The rectangle that \<open>tokenRect\<close> builds is the footprint shrunk by half a cell.\<close>

lemma tokenRect_points: "rect_points (tokenRect g t) = insetFootprint g t"
  by (auto simp: rect_points_def insetFootprint_def rect_defs)

lemma tokenRect_wellFormed:
  "g \<le> tok_w t \<Longrightarrow> g \<le> tok_h t \<Longrightarrow> wellFormed (tokenRect g t)"
  by (simp add: wellFormed_def tokenRect_def)

lemma distanceTo_square:
  assumes "canvas_dimensions h = Some d" and "canvas_grid_type h = SQUARE"
    and "measureDistanceRect h = measureDistanceRect_spec toGridUnits (dim_size d)"
  shows "distanceTo h A B reach =
           (if rectsOverlapOrTouch (tokenRect (dim_size d) (tokens h A))
                                   (tokenRect (dim_size d) (tokens h B))
            then Num 0
            else Num (toGridUnits (dim_size d)
                   (nearestDistance (tokenRect (dim_size d) (tokens h A))
                                    (tokenRect (dim_size d) (tokens h B)))))"
  using assms by (simp add: distanceTo_def measureDistanceRect_spec_def Let_def)

lemma demo_scene_square:
  "canvas_dimensions demo_scene = Some \<lparr>dim_size = 100\<rparr>"
  "canvas_grid_type demo_scene = SQUARE"
  "measureDistanceRect demo_scene =
     measureDistanceRect_spec demo_toGridUnits (dim_size \<lparr>dim_size = 100\<rparr>)"
  by (simp_all add: demo_scene_def)

lemma demo_footprints:
  "dim_size \<lparr>dim_size = 100\<rparr> \<le> tok_w (tokens demo_scene 10)"
  "dim_size \<lparr>dim_size = 100\<rparr> \<le> tok_h (tokens demo_scene 10)"
  "dim_size \<lparr>dim_size = 100\<rparr> \<le> tok_w (tokens demo_scene 40)"
  "dim_size \<lparr>dim_size = 100\<rparr> \<le> tok_h (tokens demo_scene 40)"
  "dim_size \<lparr>dim_size = 100\<rparr> \<le> tok_w (tokens demo_scene 50)"
  "dim_size \<lparr>dim_size = 100\<rparr> \<le> tok_h (tokens demo_scene 50)"
  by (simp_all add: demo_defs)

lemma demo_insets_disjoint:
  "insetFootprint 100 (tokens demo_scene 10) \<inter> insetFootprint 100 (tokens demo_scene 40) = {}"
  by (auto simp: insetFootprint_def demo_defs)


subsection \<open>Distance\<close>

text \<open>
  C2, as the specification states it, fails: on a grid that is not square the distance is
  measured between the \<open>position\<close> points of the two tokens, not between their centers.
  In the gridless example scene token 10 (one cell wide) and token 40 (two cells wide)
  are 5 units apart by position, and further apart by center.
\<close>

theorem non_square_uses_centers_counterexample:
  "canvas_dimensions demo_gridless \<noteq> None \<and> canvas_grid_type demo_gridless \<noteq> SQUARE \<and>
   distanceTo demo_gridless 10 40 None \<noteq>
     canvas_grid_measureDistance demo_gridless
       (center (tokens demo_gridless 10)) (center (tokens demo_gridless 40))"
proof -
  have "(sqrt 25000)\<^sup>2 \<noteq> 100\<^sup>2"
    by simp
  then have "sqrt 25000 \<noteq> 100"
    by metis
  then show ?thesis
    by (simp add: demo_gridless_def distanceTo_def demo_defs pdist_def hypot_def)
qed

text \<open>
  C2, amended. On a grid whose type is not square (the grid context being available),
  \<open>distanceTo\<close> returns the host's point-to-point grid distance between the \<open>position\<close>
  points of the two tokens, and the widths and heights of the tokens have no effect
  on it.
\<close>

theorem non_square_grid_distance:
  assumes "canvas_dimensions h = Some d" and "canvas_grid_type h \<noteq> SQUARE"
  shows "distanceTo h A B reach =
           canvas_grid_measureDistance h (position (tokens h A)) (position (tokens h B))
         \<and> distanceTo (h\<lparr>tokens := \<lambda>t. (tokens h t)\<lparr>tok_w := w t, tok_h := ht t\<rparr>\<rparr>) A B reach =
           distanceTo h A B reach"
  using assms by (simp add: distanceTo_def)

theorem non_square_grid_distance_witness:
  "canvas_dimensions demo_gridless = Some \<lparr>dim_size = 100\<rparr> \<and>
   canvas_grid_type demo_gridless \<noteq> SQUARE \<and>
   distanceTo demo_gridless 10 40 None = Num 5 \<and>
   distanceTo (demo_gridless\<lparr>tokens := \<lambda>t. (tokens demo_gridless t)\<lparr>tok_w := 700, tok_h := 900\<rparr>\<rparr>)
     10 40 None = Num 5"
proof -
  have d: "canvas_dimensions demo_gridless = Some \<lparr>dim_size = 100\<rparr>"
    by (simp add: demo_gridless_def demo_scene_def)
  have g: "canvas_grid_type demo_gridless \<noteq> SQUARE"
    by (simp add: demo_gridless_def)
  have m: "canvas_grid_measureDistance demo_gridless (position (tokens demo_gridless 10))
             (position (tokens demo_gridless 40)) = Num 5"
    by (simp add: demo_gridless_def demo_defs pdist_def hypot_def)
  show ?thesis
    using non_square_grid_distance [OF d g, where A = 10 and B = 40 and reach = None
        and w = "\<lambda>t. 700" and ht = "\<lambda>t. 900"] d g m by simp
qed

text \<open>
  C5. On a square grid \<open>distanceTo\<close> builds for each token the rectangle that is its
  footprint shrunk by half a grid cell on all sides, and returns the minimum distance
  between the two rectangles: zero if they overlap or touch, and otherwise the least
  Euclidean distance between a point of the one and a point of the other, converted to
  grid units with the cell size. (The footprints are at least one cell wide and high,
  and \<open>measureDistanceRect\<close> is the function the specification describes.)
\<close>

theorem square_grid_distance:
  assumes "canvas_dimensions h = Some d" and "canvas_grid_type h = SQUARE"
    and "measureDistanceRect h = measureDistanceRect_spec toGridUnits (dim_size d)"
    and "dim_size d \<le> tok_w (tokens h A)" and "dim_size d \<le> tok_h (tokens h A)"
    and "dim_size d \<le> tok_w (tokens h B)" and "dim_size d \<le> tok_h (tokens h B)"
  shows "rect_points (tokenRect (dim_size d) (tokens h A)) = insetFootprint (dim_size d) (tokens h A)
       \<and> rect_points (tokenRect (dim_size d) (tokens h B)) = insetFootprint (dim_size d) (tokens h B)
       \<and> (\<exists>m. (\<forall>p \<in> insetFootprint (dim_size d) (tokens h A).
                 \<forall>q \<in> insetFootprint (dim_size d) (tokens h B). m \<le> pdist p q) \<and>
               (\<exists>p \<in> insetFootprint (dim_size d) (tokens h A).
                 \<exists>q \<in> insetFootprint (dim_size d) (tokens h B). pdist p q = m) \<and>
               distanceTo h A B reach =
                 (if insetFootprint (dim_size d) (tokens h A) \<inter>
                     insetFootprint (dim_size d) (tokens h B) \<noteq> {}
                  then Num 0 else Num (toGridUnits (dim_size d) m)))"
proof -
  let ?rA = "tokenRect (dim_size d) (tokens h A)" and ?rB = "tokenRect (dim_size d) (tokens h B)"
  have wA: "wellFormed ?rA" and wB: "wellFormed ?rB"
    using assms(4-7) by (simp_all add: tokenRect_wellFormed)
  have low: "\<forall>p \<in> rect_points ?rA. \<forall>q \<in> rect_points ?rB. nearestDistance ?rA ?rB \<le> pdist p q"
    by (simp add: nearestDistance_lower)
  have att: "\<exists>p \<in> rect_points ?rA. \<exists>q \<in> rect_points ?rB. pdist p q = nearestDistance ?rA ?rB"
    by (rule nearestDistance_attained [OF wA wB])
  have dist: "distanceTo h A B reach =
      (if rect_points ?rA \<inter> rect_points ?rB \<noteq> {} then Num 0
       else Num (toGridUnits (dim_size d) (nearestDistance ?rA ?rB)))"
    unfolding distanceTo_square [OF assms(1-3)] overlap_iff_common_point [OF wA wB] ..
  from low att dist show ?thesis
    unfolding tokenRect_points by blast
qed

theorem square_grid_distance_witness:
  "canvas_dimensions demo_scene = Some \<lparr>dim_size = 100\<rparr> \<and>
   canvas_grid_type demo_scene = SQUARE \<and>
   measureDistanceRect demo_scene = measureDistanceRect_spec demo_toGridUnits 100 \<and>
   100 \<le> tok_w (tokens demo_scene 10) \<and> 100 \<le> tok_h (tokens demo_scene 10) \<and>
   100 \<le> tok_w (tokens demo_scene 40) \<and> 100 \<le> tok_h (tokens demo_scene 40) \<and>
   (\<exists>m. (\<forall>p \<in> insetFootprint 100 (tokens demo_scene 10).
           \<forall>q \<in> insetFootprint 100 (tokens demo_scene 40). m \<le> pdist p q) \<and>
         (\<exists>p \<in> insetFootprint 100 (tokens demo_scene 10).
           \<exists>q \<in> insetFootprint 100 (tokens demo_scene 40). pdist p q = m) \<and>
         distanceTo demo_scene 10 40 None = Num (demo_toGridUnits 100 m))"
  using square_grid_distance [OF demo_scene_square demo_footprints(1-4), of None]
    demo_scene_square demo_footprints(1-4) demo_insets_disjoint
  by simp




subsection \<open>The intersection helpers, as specified\<close>















subsection \<open>Symmetry of the flanking arrangement\<close>



end
